theory Spec2Isabelle
  imports Complex_Main
begin

section \<open>The forecasting-pipeline notebook\<close>

text \<open>
  The development embeds the code cells of \<^verbatim>\<open>Custom_Script/03_Forecasting_Pipeline.ipynb\<close>.
  Objects of the Azure ML client library are opaque handles: a handle is a record whose
  function fields are the methods the notebook calls on it, and every such call may raise.
  Python exceptions are values of \<open>error\<close>; a call that may raise returns \<open>error + 'a\<close>.
\<close>

datatype error =
    IndexError
  | TypeError
  | ValueError
  | KeyError
  | FileNotFoundError
  | NotADirectoryError
  | PermissionError
  | PlatformError string

subsection \<open>Python lists and dicts\<close>

text \<open>\<^verbatim>\<open>xs[0]\<close> and \<^verbatim>\<open>xs[-1]\<close>: both raise IndexError on the empty list.\<close>

definition index_first :: "'a list \<Rightarrow> error + 'a" where
  "index_first xs = (case xs of [] \<Rightarrow> Inl IndexError | x # _ \<Rightarrow> Inr x)"

definition index_last :: "'a list \<Rightarrow> error + 'a" where
  "index_last xs = (if xs = [] then Inl IndexError else Inr (last xs))"

text \<open>\<^verbatim>\<open>d[k] = v\<close> on a dict, which keeps insertion order.\<close>

fun dict_set :: "('k \<times> 'v) list \<Rightarrow> 'k \<Rightarrow> 'v \<Rightarrow> ('k \<times> 'v) list" where
  "dict_set [] k v = [(k, v)]"
| "dict_set ((k', v') # d) k v = (if k' = k then (k, v) # d else (k', v') # dict_set d k v)"

text \<open>
  A loop that applies a function to the elements of a list in order, as a list
  comprehension does: the first exception ends it.
\<close>

fun traverse :: "('a \<Rightarrow> error + 'b) \<Rightarrow> 'a list \<Rightarrow> error + 'b list" where
  "traverse f [] = Inr []"
| "traverse f (x # xs) =
     (case f x of
        Inl e \<Rightarrow> Inl e
      | Inr y \<Rightarrow> (case traverse f xs of Inl e \<Rightarrow> Inl e | Inr ys \<Rightarrow> Inr (y # ys)))"

text \<open>
  \<^verbatim>\<open>sorted(xs, key=f)\<close> computes the key of every element in order, so that an exception
  of \<open>f\<close> ends it, and then sorts by the keys alone, ascending and stably.
\<close>

definition py_sorted :: "('a \<Rightarrow> error + 'k::linorder) \<Rightarrow> 'a list \<Rightarrow> error + 'a list" where
  "py_sorted key xs =
     (case traverse key xs of
        Inl e \<Rightarrow> Inl e
      | Inr ks \<Rightarrow> Inr (map snd (sort_key fst (zip ks xs))))"

subsection \<open>Paths: \<^verbatim>\<open>os.path.join\<close> and \<^verbatim>\<open>pathlib.Path\<close> (POSIX flavour)\<close>

text \<open>
  \<^verbatim>\<open>posixpath.join(a, b)\<close> with one component \<open>b\<close>: an absolute \<open>b\<close> replaces \<open>a\<close>;
  otherwise \<open>b\<close> is appended, with a separator unless \<open>a\<close> is empty or ends with one.
\<close>

definition os_path_join :: "string \<Rightarrow> string \<Rightarrow> string" where
  "os_path_join a b =
     (if b \<noteq> [] \<and> hd b = CHR ''/'' then b
      else if a = [] \<or> last a = CHR ''/'' then a @ b
      else a @ ''/'' @ b)"

text \<open>\<^verbatim>\<open>s.split(c)\<close> and \<^verbatim>\<open>'/'.join(xs)\<close>.\<close>

fun split_sep :: "char \<Rightarrow> string \<Rightarrow> string list" where
  "split_sep c [] = [[]]"
| "split_sep c (x # xs) =
     (if x = c then [] # split_sep c xs
      else (case split_sep c xs of [] \<Rightarrow> [[x]] | w # ws \<Rightarrow> (x # w) # ws))"

fun join_sep :: "string list \<Rightarrow> string" where
  "join_sep [] = []"
| "join_sep [x] = x"
| "join_sep (x # y # ys) = x @ ''/'' @ join_sep (y # ys)"

text \<open>
  A \<^verbatim>\<open>PurePosixPath\<close> is its root (\<open>''''\<close>, \<open>''/''\<close> or \<open>''//''\<close>) and its components.
  \<open>Path s\<close> parses one string as pathlib does: empty components and \<open>.\<close> are dropped, and
  exactly two leading separators are kept as the root \<open>//\<close>.
\<close>

datatype pure_path = PurePath (root: string) (parts: "string list")

definition splitroot :: "string \<Rightarrow> string \<times> string" where
  "splitroot part =
     (if part \<noteq> [] \<and> hd part = CHR ''/'' then
        (let stripped_part = dropWhile (\<lambda>c. c = CHR ''/'') part
         in (if length part - length stripped_part = 2 then ''//'' else ''/'', stripped_part))
      else ('''', part))"

definition Path :: "string \<Rightarrow> pure_path" where
  "Path s =
     (case splitroot s of
        (rt, rel) \<Rightarrow> PurePath rt (filter (\<lambda>x. x \<noteq> [] \<and> x \<noteq> ''.'') (split_sep (CHR ''/'') rel)))"

definition path_str :: "pure_path \<Rightarrow> string" where
  "path_str p = (let s = root p @ join_sep (parts p) in if s = [] then ''.'' else s)"

definition make_child :: "pure_path \<Rightarrow> string \<Rightarrow> pure_path" where
  "make_child p name = PurePath (root p) (parts p @ [name])"

subsection \<open>The local filesystem\<close>

text \<open>
  The filesystem is read through \<^verbatim>\<open>os.listdir\<close>, \<^verbatim>\<open>Path.iterdir\<close> and
  \<^verbatim>\<open>os.path.getmtime\<close>. A path names a missing node, a file, or a directory with its entry
  names in the order the operating system enumerates them (\<^verbatim>\<open>os.listdir\<close> never reports
  \<open>.\<close> and \<open>..\<close>). Path strings are resolved to their parsed form, so that \<open>./a//b\<close> and
  \<open>a/b\<close> name the same node. A name that a directory lists need not resolve to a node (a
  dangling symbolic link, an entry removed since). \<open>st_mtime\<close> is what \<^verbatim>\<open>os.stat\<close> answers
  for a node: its modification time, a float of which only the order is used and which is
  modelled as a real, or the exception it raises.
\<close>

datatype node = Missing | File string | Dir "string list"

record filesystem =
  node_at :: "pure_path \<Rightarrow> node"
  st_mtime :: "pure_path \<Rightarrow> error + real"

definition os_listdir :: "filesystem \<Rightarrow> string \<Rightarrow> error + string list" where
  "os_listdir fsys s =
     (if s = [] then Inl FileNotFoundError
      else (case node_at fsys (Path s) of
              Missing \<Rightarrow> Inl FileNotFoundError
            | File content \<Rightarrow> Inl NotADirectoryError
            | Dir names \<Rightarrow> Inr names))"

definition iterdir :: "filesystem \<Rightarrow> pure_path \<Rightarrow> error + pure_path list" where
  "iterdir fsys p =
     (case node_at fsys p of
        Missing \<Rightarrow> Inl FileNotFoundError
      | File content \<Rightarrow> Inl NotADirectoryError
      | Dir names \<Rightarrow> Inr (map (make_child p) names))"

definition os_path_getmtime :: "filesystem \<Rightarrow> pure_path \<Rightarrow> error + real" where
  "os_path_getmtime fsys p =
     (case node_at fsys p of
        Missing \<Rightarrow> Inl FileNotFoundError
      | File content \<Rightarrow> st_mtime fsys p
      | Dir names \<Rightarrow> st_mtime fsys p)"

subsection \<open>Configuration objects of the client library\<close>

text \<open>
  The objects the notebook constructs are records of the keyword arguments it passes;
  the handles the service returns (workspace, datastore, dataset, compute target) are
  records of the attributes the notebook reads or passes on. Validation of constructor
  arguments inside the library is not modelled.
\<close>

record workspace =
  ws_name :: string
  location :: string
  subscription_id :: string
  resource_group :: string

record datastore =
  datastore_name :: string
  container_name :: string
  account_name :: string
  account_key :: string

record aml_experiment =
  exp_workspace :: workspace
  exp_name :: string

record dataset =
  dataset_name :: string

record named_input =
  input_dataset :: dataset
  input_name :: string

record conda_dependencies =
  pip_packages :: "string list"

record environment =
  env_name :: string
  python_conda_dependencies :: "conda_dependencies option"

record compute_target =
  compute_name :: string

record parallel_run_config =
  source_directory :: string
  entry_script :: string
  mini_batch_size :: string
  run_invocation_timeout :: int
  error_threshold :: int
  output_action :: string
  environment :: environment
  process_count_per_node :: int
  compute_target :: compute_target
  node_count :: int

record pipeline_data =
  pd_name :: string
  pd_datastore :: datastore

record data_reference =
  dref_datastore :: datastore

datatype argument =
    ArgStr string
  | ArgInt int
  | ArgData pipeline_data
  | ArgRef data_reference

record parallel_run_step =
  prs_name :: string
  prs_parallel_run_config :: parallel_run_config
  prs_inputs :: "named_input list"
  prs_output :: pipeline_data
  prs_allow_reuse :: bool
  prs_arguments :: "argument list"

record python_script_step =
  pss_name :: string
  pss_script_name :: string
  pss_compute_target :: compute_target
  pss_source_directory :: string
  pss_inputs :: "argument list"
  pss_allow_reuse :: bool
  pss_arguments :: "argument list"

datatype pipeline_step =
    ParallelRunStep parallel_run_step
  | PythonScriptStep python_script_step

fun step_name :: "pipeline_step \<Rightarrow> string" where
  "step_name (ParallelRunStep s) = prs_name s"
| "step_name (PythonScriptStep s) = pss_name s"

fun step_script :: "pipeline_step \<Rightarrow> string" where
  "step_script (ParallelRunStep s) = entry_script (prs_parallel_run_config s)"
| "step_script (PythonScriptStep s) = pss_script_name s"

record pipeline =
  pl_workspace :: workspace
  pl_steps :: "pipeline_step list"

type_synonym tags = "(string \<times> int) list"

subsection \<open>Dataframes and plots\<close>

text \<open>
  A dataframe is its number of rows and its columns, each a label with its values.
  What pandas, seaborn and matplotlib compute is not modelled: their functions are
  parameters (see \<open>libraries\<close> below). Modelled are the three dataframe accesses on which
  the notebook's own data flow rests:
  \<^verbatim>\<open>df.columns = names\<close> raises ValueError unless there is one name per column;
  \<^verbatim>\<open>df[name]\<close> raises KeyError for a label that is not a column;
  \<^verbatim>\<open>df[name] = values\<close> raises ValueError unless there is one value per row, and
  replaces the column of that label or appends a new one.
\<close>

datatype label = IntLabel nat | StrLabel string

datatype timestamp = Timestamp int int int int | NaT

datatype cell = NaN | Text string | Number real | DateValue int int int | NaTValue

record dataframe =
  nrows :: nat
  series :: "(label \<times> cell list) list"

definition columns :: "dataframe \<Rightarrow> label list" where
  "columns df = map fst (series df)"

definition set_columns :: "dataframe \<Rightarrow> label list \<Rightarrow> error + dataframe" where
  "set_columns df names =
     (if length names = length (series df)
      then Inr (df\<lparr>series := zip names (map snd (series df))\<rparr>)
      else Inl ValueError)"

definition get_column :: "dataframe \<Rightarrow> label \<Rightarrow> error + cell list" where
  "get_column df name =
     (case map_of (series df) name of None \<Rightarrow> Inl KeyError | Some vals \<Rightarrow> Inr vals)"

definition set_column :: "dataframe \<Rightarrow> label \<Rightarrow> cell list \<Rightarrow> error + dataframe" where
  "set_column df name vals =
     (if length vals \<noteq> nrows df then Inl ValueError
      else Inr (df\<lparr>series := dict_set (series df) name vals\<rparr>))"

text \<open>
  The objects that \<^verbatim>\<open>groupby\<close>, \<^verbatim>\<open>sum\<close> and the plotting functions hand back are
  opaque to the notebook, which only passes them on.
\<close>

datatype grouped = Grouped dataframe "label list"

datatype grouped_column = GroupedColumn grouped label

datatype indexed_series = IndexedSeries "(cell list \<times> cell) list"

datatype axes = Axes nat

text \<open>The calls that draw, with their arguments.\<close>

datatype plot_call =
    Sns_violinplot "cell list" "cell list" dataframe
  | Axes_set_title axes string
  | DataFrame_plot dataframe
  | Plt_title string
  | Plt_xticks int
  | Plt_legend string "label list option"
  | Plt_xlabel string
  | Plt_ylabel string
  | Plt_show

subsection \<open>Calls to the service, and the world they act on\<close>

text \<open>
  Every call that reaches the service is recorded, with its arguments, in the order the
  notebook makes it, and so is every call that draws. The world is the local filesystem,
  the printed output and these two records.
\<close>

datatype request =
    Workspace_from_config
  | Get_default_datastore
  | Experiment_create string
  | Dataset_get_by_name string
  | AmlCompute_get string
  | Register_azure_blob_container workspace string string string string bool
  | Experiment_submit aml_experiment pipeline tags
  | Find_step_run string
  | Get_output_data string
  | Download "string option" bool bool


record world =
  fs :: filesystem
  stdout :: "string list"
  requests :: "request list"
  plots :: "plot_call list"

text \<open>
  An action runs in a world and either raises or returns, leaving a world behind. An
  exception that nothing catches ends the enclosing action: \<open>bind\<close> passes it on.
\<close>

type_synonym 'a action = "world \<Rightarrow> (error + 'a) \<times> world"

definition return :: "'a \<Rightarrow> 'a action" where
  "return x w = (Inr x, w)"

definition lift :: "error + 'a \<Rightarrow> 'a action" where
  "lift r w = (r, w)"

definition bind :: "'a action \<Rightarrow> ('a \<Rightarrow> 'b action) \<Rightarrow> 'b action" where
  "bind m k w = (case m w of (Inl e, w') \<Rightarrow> (Inl e, w') | (Inr x, w') \<Rightarrow> k x w')"

definition call :: "request \<Rightarrow> error + 'a \<Rightarrow> 'a action" where
  "call r response w = (response, w\<lparr>requests := requests w @ [r]\<rparr>)"

definition print :: "string list \<Rightarrow> unit action" where
  "print lines w = (Inr (), w\<lparr>stdout := stdout w @ lines\<rparr>)"

subsection \<open>Handles of a submitted run\<close>

text \<open>
  \<^verbatim>\<open>port_data.download(local_path, overwrite, show_progress)\<close> writes to the local
  filesystem; what it writes is the platform's business, so it is a function on filesystems
  that reports the exception it raised, if any.
\<close>

record port_data_reference =
  port_data_str :: string
  download :: "string option \<Rightarrow> bool \<Rightarrow> bool \<Rightarrow> filesystem \<Rightarrow> error option \<times> filesystem"

record step_run =
  get_output_data :: "string \<Rightarrow> error + port_data_reference"

record pipeline_run =
  find_step_run :: "string \<Rightarrow> error + step_run list"

definition call_download :: "port_data_reference \<Rightarrow> string option \<Rightarrow> bool \<Rightarrow> bool \<Rightarrow> unit action" where
  "call_download port_data local_path overwrite show_progress w =
     (case download port_data local_path overwrite show_progress (fs w) of
        (r, fsys) \<Rightarrow>
          ((case r of Some e \<Rightarrow> Inl e | None \<Rightarrow> Inr ()),
           w\<lparr>fs := fsys, requests := requests w @ [Download local_path overwrite show_progress]\<rparr>))"

subsection \<open>\<^verbatim>\<open>download_predictions\<close>\<close>

text \<open>
  Lines 327 to 329 of the notebook read the filesystem the download left behind.
  \<open>step_hash\<close> is bound and never read, but the indexing that binds it can raise;
  \<^verbatim>\<open>os.path.join(None, ...)\<close> raises TypeError; \<^verbatim>\<open>sorted\<close> is a stable ascending sort.
\<close>

definition join_target :: "string option \<Rightarrow> string \<Rightarrow> error + string" where
  "join_target target_dir b =
     (case target_dir of None \<Rightarrow> Inl TypeError | Some t \<Rightarrow> Inr (os_path_join t b))"

definition latest_output :: "filesystem \<Rightarrow> string option \<Rightarrow> error + string" where
  "latest_output fsys target_dir =
     (case join_target target_dir ''azureml'' of
        Inl e \<Rightarrow> Inl e
      | Inr d \<Rightarrow>
          (case os_listdir fsys d of
             Inl e \<Rightarrow> Inl e
           | Inr names \<Rightarrow>
               (case index_first names of
                  Inl e \<Rightarrow> Inl e
                | Inr step_hash \<Rightarrow>
                    (case iterdir fsys (Path d) of
                       Inl e \<Rightarrow> Inl e
                     | Inr entries \<Rightarrow>
                         (case py_sorted (os_path_getmtime fsys) entries of
                            Inl e \<Rightarrow> Inl e
                          | Inr latest \<Rightarrow>
                              (case index_last latest of
                                 Inl e \<Rightarrow> Inl e
                               | Inr p \<Rightarrow>
                                   Inr (os_path_join (path_str p) ''forecasting_output'')))))))"

definition download_predictions :: "pipeline_run \<Rightarrow> string option \<Rightarrow> string action" where
  "download_predictions run target_dir =
     bind (call (Find_step_run ''many-models-forecasting'')
             (find_step_run run ''many-models-forecasting'')) (\<lambda>step_runs.
     bind (lift (index_first step_runs)) (\<lambda>stitch_run.
     bind (call (Get_output_data ''forecasting_output'')
             (get_output_data stitch_run ''forecasting_output'')) (\<lambda>port_data.
     bind (print [port_data_str port_data]) (\<lambda>_.
     bind (call_download port_data target_dir True True) (\<lambda>_.
     (\<lambda>w. (latest_output (fs w) target_dir, w)))))))"


subsection \<open>Cells 1 to 6: building and submitting the pipeline\<close>

text \<open>
  The entry points of the client library that reach the service, each with the response
  the service gives. \<^verbatim>\<open>Experiment(ws, name)\<close> gets or creates the experiment;
  \<^verbatim>\<open>AmlCompute(ws, name)\<close> looks an existing compute target up.
\<close>

record azureml =
  from_config :: "error + workspace"
  get_default_datastore :: "workspace \<Rightarrow> error + datastore"
  create_experiment :: "workspace \<Rightarrow> string \<Rightarrow> error + unit"
  get_by_name :: "workspace \<Rightarrow> string \<Rightarrow> error + dataset"
  get_compute :: "workspace \<Rightarrow> string \<Rightarrow> error + compute_target"
  register_azure_blob_container ::
    "workspace \<Rightarrow> string \<Rightarrow> string \<Rightarrow> string \<Rightarrow> string \<Rightarrow> bool \<Rightarrow> error + datastore"
  submit :: "aml_experiment \<Rightarrow> pipeline \<Rightarrow> tags \<Rightarrow> error + pipeline_run"

definition forecast_env :: environment where
  "forecast_env =
     \<lparr>env_name = ''many_models_environment'',
      python_conda_dependencies = Some \<lparr>pip_packages = [''sklearn'', ''joblib'']\<rparr>\<rparr>"

definition process_count_per_node_var :: int where
  "process_count_per_node_var = 8"

definition node_count_var :: int where
  "node_count_var = 5"

definition timeout_var :: int where
  "timeout_var = 180"

definition tags_var :: tags where
  "tags_var =
     dict_set (dict_set (dict_set [] ''node_count'' node_count_var)
        ''process_count_per_node'' process_count_per_node_var)
        ''timeout'' timeout_var"

definition parallel_run_config_var :: "compute_target \<Rightarrow> parallel_run_config" where
  "parallel_run_config_var compute =
     \<lparr>source_directory = ''./scripts'',
      entry_script = ''forecast.py'',
      mini_batch_size = ''1'',
      run_invocation_timeout = timeout_var,
      error_threshold = 10,
      output_action = ''append_row'',
      environment = forecast_env,
      process_count_per_node = process_count_per_node_var,
      compute_target = compute,
      node_count = node_count_var\<rparr>"

definition output_dir_var :: "datastore \<Rightarrow> pipeline_data" where
  "output_dir_var dstore = \<lparr>pd_name = ''forecasting_output'', pd_datastore = dstore\<rparr>"

definition parallel_run_step_var :: "compute_target \<Rightarrow> named_input \<Rightarrow> datastore \<Rightarrow> parallel_run_step" where
  "parallel_run_step_var compute small_dataset_input dstore =
     \<lparr>prs_name = ''many-models-forecasting'',
      prs_parallel_run_config = parallel_run_config_var compute,
      prs_inputs = [small_dataset_input],
      prs_output = output_dir_var dstore,
      prs_allow_reuse = False,
      prs_arguments =
        [ArgStr ''--forecast_horizon'', ArgInt 8,
         ArgStr ''--starting_date'', ArgStr ''1992-10-01'',
         ArgStr ''--target_column'', ArgStr ''Quantity'',
         ArgStr ''--timestamp_column'', ArgStr ''WeekStarting'',
         ArgStr ''--model_type'', ArgStr ''lr'',
         ArgStr ''--date_freq'', ArgStr ''W-THU'']\<rparr>"

definition upload_predictions_step_var :: "compute_target \<Rightarrow> data_reference \<Rightarrow> pipeline_data \<Rightarrow> python_script_step" where
  "upload_predictions_step_var compute output_dref output_dir =
     \<lparr>pss_name = ''copy_predictions'',
      pss_script_name = ''copy_predictions.py'',
      pss_compute_target = compute,
      pss_source_directory = ''./scripts'',
      pss_inputs = [ArgRef output_dref, ArgData output_dir],
      pss_allow_reuse = False,
      pss_arguments =
        [ArgStr ''--parallel_run_step_output'', ArgData output_dir,
         ArgStr ''--output_dir'', ArgRef output_dref]\<rparr>"

definition pipeline_var :: "workspace \<Rightarrow> datastore \<Rightarrow> dataset \<Rightarrow> compute_target \<Rightarrow> datastore \<Rightarrow> pipeline" where
  "pipeline_var ws dstore small_dataset compute output_dstore =
     \<lparr>pl_workspace = ws,
      pl_steps =
        [ParallelRunStep
           (parallel_run_step_var compute
              \<lparr>input_dataset = small_dataset, input_name = ''forecast_10_models''\<rparr> dstore),
         PythonScriptStep
           (upload_predictions_step_var compute
              \<lparr>dref_datastore = output_dstore\<rparr> (output_dir_var dstore))]\<rparr>"

definition run_pipeline :: "azureml \<Rightarrow> pipeline_run action" where
  "run_pipeline sdk =
     bind (call Workspace_from_config (from_config sdk)) (\<lambda>ws.
     bind (call Get_default_datastore (get_default_datastore sdk ws)) (\<lambda>dstore.
     bind (print [''Workspace Name: '' @ ws_name ws,
                  ''Azure Region: '' @ location ws,
                  ''Subscription Id: '' @ subscription_id ws,
                  ''Resource Group: '' @ resource_group ws]) (\<lambda>_.
     bind (call (Experiment_create ''forecasting_pipeline'')
             (create_experiment sdk ws ''forecasting_pipeline'')) (\<lambda>_.
     bind (call (Dataset_get_by_name ''oj_data_small'')
             (get_by_name sdk ws ''oj_data_small'')) (\<lambda>small_dataset.
     bind (call (AmlCompute_get ''cpucluster'') (get_compute sdk ws ''cpucluster'')) (\<lambda>compute.
     bind (call (Register_azure_blob_container ws ''predictions'' ''predictions''
                   (account_name dstore) (account_key dstore) True)
             (register_azure_blob_container sdk ws ''predictions'' ''predictions''
                   (account_name dstore) (account_key dstore) True)) (\<lambda>output_dstore.
     call (Experiment_submit \<lparr>exp_workspace = ws, exp_name = ''forecasting_pipeline''\<rparr>
             (pipeline_var ws dstore small_dataset compute output_dstore) tags_var)
          (submit sdk \<lparr>exp_workspace = ws, exp_name = ''forecasting_pipeline''\<rparr>
             (pipeline_var ws dstore small_dataset compute output_dstore) tags_var))))))))"


subsection \<open>Cells 7.2 and 7.3: the dataframe of predictions and its plots\<close>

text \<open>
  The functions of pandas, seaborn and matplotlib that the notebook calls, each with the
  answer it gives or the exception it raises. \<open>draw n c\<close> is the answer of the plotting
  libraries to the call \<open>c\<close> when \<open>n\<close> calls have been drawn before it.
\<close>

record libraries =
  pd_read_csv :: "filesystem \<Rightarrow> string \<Rightarrow> string \<Rightarrow> nat option \<Rightarrow> error + dataframe"
  pd_to_datetime :: "cell list \<Rightarrow> error + timestamp list"
  timestamp_date :: "timestamp \<Rightarrow> error + cell"
  df_head :: "dataframe \<Rightarrow> error + dataframe"
  df_groupby :: "dataframe \<Rightarrow> label list \<Rightarrow> error + grouped"
  groupby_getitem :: "grouped \<Rightarrow> label \<Rightarrow> error + grouped_column"
  groupby_sum :: "grouped_column \<Rightarrow> error + indexed_series"
  series_unstack :: "indexed_series \<Rightarrow> int \<Rightarrow> error + dataframe"
  pd_DataFrame :: "dataframe \<Rightarrow> error + dataframe"
  series_eq :: "cell list \<Rightarrow> string \<Rightarrow> error + bool list"
  df_getitem_mask :: "dataframe \<Rightarrow> bool list \<Rightarrow> error + dataframe"
  draw :: "nat \<Rightarrow> plot_call \<Rightarrow> error + axes"

definition plot :: "libraries \<Rightarrow> plot_call \<Rightarrow> axes action" where
  "plot libs c w = (draw libs (length (plots w)) c, w\<lparr>plots := plots w @ [c]\<rparr>)"

text \<open>
  Cell 7.2. The file is read with the separator \<open>' '\<close> and \<open>header=None\<close>; the list
  comprehension calls \<^verbatim>\<open>date()\<close> on every timestamp in order.
\<close>

definition load_predictions :: "libraries \<Rightarrow> string \<Rightarrow> dataframe action" where
  "load_predictions libs file_path =
     bind (\<lambda>w. (pd_read_csv libs (fs w) (file_path @ ''/parallel_run_step.txt'') '' '' None, w))
       (\<lambda>df.
     bind (lift (set_columns df [StrLabel ''WeekStarting'', StrLabel ''Predictions'',
                                 StrLabel ''Store'', StrLabel ''Brand''])) (\<lambda>df.
     bind (lift (get_column df (StrLabel ''WeekStarting''))) (\<lambda>week_starting.
     bind (lift (pd_to_datetime libs week_starting)) (\<lambda>stamps.
     bind (lift (traverse (timestamp_date libs) stamps)) (\<lambda>dates.
     bind (lift (set_column df (StrLabel ''WeekStarting'') dates)) (\<lambda>df.
     bind (lift (df_head libs df)) (\<lambda>_.
     return df)))))))"

text \<open>Cell 7.3, first plot: the distribution of the predictions by brand.\<close>

definition visualize_by_brand :: "libraries \<Rightarrow> dataframe \<Rightarrow> unit action" where
  "visualize_by_brand libs df =
     bind (lift (get_column df (StrLabel ''Brand''))) (\<lambda>x.
     bind (lift (get_column df (StrLabel ''Predictions''))) (\<lambda>y.
     bind (plot libs (Sns_violinplot x y df)) (\<lambda>fig.
     bind (plot libs (Axes_set_title fig ''Predictions by Brand'')) (\<lambda>_.
     return ()))))"

text \<open>Cell 7.3, second plot: the predictions over time.\<close>

definition visualize_over_time :: "libraries \<Rightarrow> dataframe \<Rightarrow> unit action" where
  "visualize_over_time libs df =
     bind (lift (df_groupby libs df [StrLabel ''WeekStarting'', StrLabel ''Brand''])) (\<lambda>week.
     bind (lift (groupby_getitem libs week (StrLabel ''Predictions''))) (\<lambda>week.
     bind (lift (groupby_sum libs week)) (\<lambda>week.
     bind (lift (series_unstack libs week 1)) (\<lambda>week.
     bind (lift (pd_DataFrame libs week)) (\<lambda>week.
     bind (plot libs (DataFrame_plot week)) (\<lambda>_.
     bind (plot libs (Plt_title ''Total Predictions by Brand'')) (\<lambda>_.
     bind (plot libs (Plt_xticks 40)) (\<lambda>_.
     bind (plot libs (Plt_legend ''upper right'' None)) (\<lambda>_.
     bind (plot libs (Plt_xlabel ''Week'')) (\<lambda>_.
     bind (plot libs (Plt_ylabel ''Total Predictions'')) (\<lambda>_.
     bind (plot libs Plt_show) (\<lambda>_.
     return ()))))))))))))"

text \<open>Cell 7.3, third plot: the predictions of one store.\<close>

definition store_var :: string where
  "store_var = ''Store1001''"

definition visualize_store :: "libraries \<Rightarrow> dataframe \<Rightarrow> unit action" where
  "visualize_store libs df =
     bind (lift (get_column df (StrLabel ''Store''))) (\<lambda>stores.
     bind (lift (series_eq libs stores store_var)) (\<lambda>mask.
     bind (lift (df_getitem_mask libs df mask)) (\<lambda>df_1001.
     bind (lift (df_groupby libs df_1001 [StrLabel ''WeekStarting'', StrLabel ''Brand''])) (\<lambda>brands.
     bind (lift (groupby_getitem libs brands (StrLabel ''Predictions''))) (\<lambda>brands.
     bind (lift (groupby_sum libs brands)) (\<lambda>brands.
     bind (lift (series_unstack libs brands 1)) (\<lambda>brands.
     bind (lift (pd_DataFrame libs brands)) (\<lambda>brands.
     bind (plot libs (DataFrame_plot brands)) (\<lambda>_.
     bind (plot libs (Plt_legend ''upper right'' (Some (columns brands)))) (\<lambda>_.
     bind (plot libs (Plt_xticks 40)) (\<lambda>_.
     bind (plot libs (Plt_title ''Predictions for Store 1001'')) (\<lambda>_.
     bind (plot libs (Plt_xlabel ''Week'')) (\<lambda>_.
     bind (plot libs (Plt_ylabel ''Predicted Quantity'')) (\<lambda>_.
     bind (plot libs Plt_show) (\<lambda>_.
     return ())))))))))))))))"

subsection \<open>The notebook\<close>

text \<open>
  The code cells in order. The cells of section 8 hold comments only. What the notebook's
  front end displays after a cell (the value of its last expression, the figure) is not
  modelled.
\<close>

definition notebook :: "azureml \<Rightarrow> libraries \<Rightarrow> unit action" where
  "notebook sdk libs =
     bind (run_pipeline sdk) (\<lambda>run.
     bind (download_predictions run (Some ''output'')) (\<lambda>file_path.
     bind (load_predictions libs file_path) (\<lambda>df.
     bind (visualize_by_brand libs df) (\<lambda>_.
     bind (visualize_over_time libs df) (\<lambda>_.
     visualize_store libs df)))))"

subsection \<open>Concrete handles, filesystems and worlds\<close>

text \<open>
  A run with one forecasting step whose download leaves the filesystem as it finds it
  (the data are already there), a run without steps, and a filesystem whose only
  directory tree is \<open>output/azureml\<close>: that directory is the given node, and the entries
  it lists are directories themselves.
\<close>

definition example_port_data :: port_data_reference where
  "example_port_data =
     \<lparr>port_data_str = ''forecasting_output'',
      download = (\<lambda>local_path overwrite show_progress fsys. (None, fsys))\<rparr>"

definition example_step_run :: step_run where
  "example_step_run = \<lparr>get_output_data = (\<lambda>name. Inr example_port_data)\<rparr>"

definition example_run :: pipeline_run where
  "example_run =
     \<lparr>find_step_run = (\<lambda>name. if name = ''many-models-forecasting''
                                then Inr [example_step_run] else Inr [])\<rparr>"

definition empty_run :: pipeline_run where
  "empty_run = \<lparr>find_step_run = (\<lambda>name. Inr [])\<rparr>"

definition listed :: "node \<Rightarrow> string list" where
  "listed nd = (case nd of Dir names \<Rightarrow> names | _ \<Rightarrow> [])"

definition example_fs :: "node \<Rightarrow> (pure_path \<Rightarrow> real) \<Rightarrow> filesystem" where
  "example_fs nd mt =
     \<lparr>node_at = (\<lambda>p.
         if p = PurePath [] [''output'', ''azureml''] then nd
         else if p \<in> set (map (make_child (PurePath [] [''output'', ''azureml''])) (listed nd))
         then Dir [''forecasting_output'']
         else Missing),
      st_mtime = (\<lambda>p. Inr (mt p))\<rparr>"

definition example_world :: "node \<Rightarrow> (pure_path \<Rightarrow> real) \<Rightarrow> world" where
  "example_world nd mt = \<lparr>fs = example_fs nd mt, stdout = [], requests = [], plots = []\<rparr>"

definition mtime_a_newer :: "pure_path \<Rightarrow> real" where
  "mtime_a_newer p = (if p = PurePath [] [''output'', ''azureml'', ''a''] then 5 else 3)"



text \<open>A directory that lists one name, \<open>x\<close>, which does not resolve: a dangling link.\<close>

definition dangling_world :: world where
  "dangling_world =
     \<lparr>fs = \<lparr>node_at = (\<lambda>p. if p = PurePath [] [''output'', ''azureml''] then Dir [''x'']
                            else Missing),
            st_mtime = (\<lambda>p. Inr 5)\<rparr>,
      stdout = [], requests = [], plots = []\<rparr>"

text \<open>
  A service that answers from the arguments it is given. It holds the blob containers
  \<open>containers\<close>: a registration succeeds when the container exists or
  \<open>create_if_not_exists\<close> is set, and is refused otherwise.
\<close>

definition example_ws :: workspace where
  "example_ws =
     \<lparr>ws_name = ''ws'', location = ''westus'', subscription_id = ''sub'',
      resource_group = ''rg''\<rparr>"

definition example_dstore :: datastore where
  "example_dstore =
     \<lparr>datastore_name = ''workspaceblobstore'', container_name = ''azureml-blobstore'',
      account_name = ''acct'', account_key = ''key''\<rparr>"

definition service :: "string list \<Rightarrow> azureml" where
  "service containers =
     \<lparr>from_config = Inr example_ws,
      get_default_datastore = (\<lambda>ws. Inr example_dstore),
      create_experiment = (\<lambda>ws name. Inr ()),
      get_by_name = (\<lambda>ws name. Inr \<lparr>dataset_name = name\<rparr>),
      get_compute = (\<lambda>ws name. Inr \<lparr>compute_name = name\<rparr>),
      register_azure_blob_container = (\<lambda>ws dn cn an ak create_if_not_exists.
         if cn \<in> set containers \<or> create_if_not_exists
         then Inr \<lparr>datastore_name = dn, container_name = cn, account_name = an,
                   account_key = ak\<rparr>
         else Inl (PlatformError ''ContainerNotFound'')),
      submit = (\<lambda>e p t. Inr example_run)\<rparr>"


text \<open>A downloaded file of two predictions, and libraries that read it.\<close>

definition example_content :: string where
  "example_content =
     ''1992-10-01 10.5 Store1001 tropicana'' @ [CHR 0x0A] @
     ''1992-10-08 11.5 Store1001 tropicana'' @ [CHR 0x0A]"

definition predictions_fs :: filesystem where
  "predictions_fs =
     \<lparr>node_at = (\<lambda>p.
         if p = PurePath [] [''output'', ''azureml''] then Dir [''a'']
         else if p = PurePath [] [''output'', ''azureml'', ''a''] then Dir [''forecasting_output'']
         else if p = PurePath [] [''output'', ''azureml'', ''a'', ''forecasting_output'']
         then Dir [''parallel_run_step.txt'']
         else if p = PurePath [] [''output'', ''azureml'', ''a'', ''forecasting_output'',
                                   ''parallel_run_step.txt'']
         then File example_content
         else Missing),
      st_mtime = (\<lambda>p. Inr 5)\<rparr>"

definition predictions_world :: world where
  "predictions_world = \<lparr>fs = predictions_fs, stdout = [], requests = [], plots = []\<rparr>"

definition example_frame :: dataframe where
  "example_frame =
     \<lparr>nrows = 2,
      series =
        [(IntLabel 0, [Text ''1992-10-01'', Text ''1992-10-08'']),
         (IntLabel 1, [Number 10.5, Number 11.5]),
         (IntLabel 2, [Text ''Store1001'', Text ''Store1001'']),
         (IntLabel 3, [Text ''tropicana'', Text ''tropicana''])]\<rparr>"

definition example_libs :: libraries where
  "example_libs =
     \<lparr>pd_read_csv = (\<lambda>fsys path sep header.
         if node_at fsys (Path path) = File example_content \<and> sep = '' '' \<and> header = None
         then Inr example_frame else Inl FileNotFoundError),
      pd_to_datetime = (\<lambda>vals.
         if vals = [Text ''1992-10-01'', Text ''1992-10-08'']
         then Inr [Timestamp 1992 10 1 0, Timestamp 1992 10 8 0] else Inl ValueError),
      timestamp_date = (\<lambda>s.
         case s of Timestamp y m d t \<Rightarrow> Inr (DateValue y m d) | NaT \<Rightarrow> Inr NaTValue),
      df_head = (\<lambda>df. Inr df),
      df_groupby = (\<lambda>df keys. Inr (Grouped df keys)),
      groupby_getitem = (\<lambda>g name. Inr (GroupedColumn g name)),
      groupby_sum = (\<lambda>c. Inr (IndexedSeries [])),
      series_unstack = (\<lambda>s level. Inr \<lparr>nrows = 0, series = []\<rparr>),
      pd_DataFrame = (\<lambda>df. Inr df),
      series_eq = (\<lambda>vals s. Inr (map (\<lambda>c. c = Text s) vals)),
      df_getitem_mask = (\<lambda>df mask. Inr df),
      draw = (\<lambda>n c. Inr (Axes n))\<rparr>"

section \<open>Properties\<close>

subsection \<open>Sorting by a key and taking the last element\<close>

lemma sort_key_Nil_iff: "sort_key f xs = [] \<longleftrightarrow> xs = []"
  by (metis set_sort set_empty)





lemma traverse_Inr: "\<forall>x \<in> set xs. f x = Inr (g x) \<Longrightarrow> traverse f xs = Inr (map g xs)"
  by (induction xs) simp_all

lemma traverse_Inr_D:
  "traverse f xs = Inr ys \<Longrightarrow> ys = map (\<lambda>x. projr (f x)) xs \<and> (\<forall>x \<in> set xs. f x = Inr (projr (f x)))"
  by (induction xs arbitrary: ys) (auto split: sum.splits)

lemma traverse_Inl_D: "traverse f xs = Inl e \<Longrightarrow> \<exists>x \<in> set xs. f x = Inl e"
  by (induction xs) (auto split: sum.splits)

lemma insort_key_decorated:
  "insort_key fst (g x, x) (map (\<lambda>y. (g y, y)) ys) = map (\<lambda>y. (g y, y)) (insort_key g x ys)"
  by (induction ys) simp_all

lemma sort_key_decorated:
  "sort_key fst (map (\<lambda>y. (g y, y)) xs) = map (\<lambda>y. (g y, y)) (sort_key g xs)"
  by (induction xs) (simp_all add: insort_key_decorated)

lemma zip_keys: "zip (map g xs) xs = map (\<lambda>y. (g y, y)) xs"
  by (induction xs) simp_all

lemma py_sorted_Inr:
  assumes "\<forall>x \<in> set xs. key x = Inr (g x)"
  shows "py_sorted key xs = Inr (sort_key g xs)"
  by (simp add: py_sorted_def traverse_Inr [OF assms] zip_keys sort_key_decorated comp_def)

lemma py_sorted_Inr_D:
  assumes "py_sorted key xs = Inr ys"
  shows "\<forall>x \<in> set xs. key x = Inr (projr (key x))"
  using assms by (auto simp: py_sorted_def split: sum.splits dest: traverse_Inr_D)

lemma py_sorted_Inr_eq:
  assumes "py_sorted key xs = Inr ys"
  shows "ys = sort_key (\<lambda>x. projr (key x)) xs"
  using py_sorted_Inr [OF py_sorted_Inr_D [OF assms]] assms by simp

lemma py_sorted_Inl_D: "py_sorted key xs = Inl e \<Longrightarrow> \<exists>x \<in> set xs. key x = Inl e"
  by (auto simp: py_sorted_def split: sum.splits dest: traverse_Inl_D)

lemma insort_key_map:
  "insort_key g (f x) (map f ys) = map f (insort_key (\<lambda>y. g (f y)) x ys)"
  by (induction ys) simp_all

lemma sort_key_map: "sort_key g (map f xs) = map f (sort_key (\<lambda>y. g (f y)) xs)"
  by (induction xs) (simp_all add: insort_key_map)

subsection \<open>The filesystem part of \<^verbatim>\<open>download_predictions\<close>\<close>

lemma os_path_join_azureml_nonempty: "os_path_join t ''azureml'' \<noteq> []"
  by (simp add: os_path_join_def)

lemma last_parts_make_child: "last (parts (make_child d n)) = n"
  by (simp add: make_child_def)

lemma sorted_entries:
  assumes "\<forall>n \<in> set names. os_path_getmtime fsys (make_child d n) = Inr (mtime n)"
  shows "py_sorted (os_path_getmtime fsys) (map (make_child d) names) =
           Inr (map (make_child d) (sort_key mtime names))"
proof -
  have "\<forall>p \<in> set (map (make_child d) names).
          os_path_getmtime fsys p = Inr (mtime (last (parts p)))"
    using assms by (auto simp: last_parts_make_child)
  then have "py_sorted (os_path_getmtime fsys) (map (make_child d) names) =
      Inr (sort_key (\<lambda>p. mtime (last (parts p))) (map (make_child d) names))"
    by (rule py_sorted_Inr)
  then show ?thesis by (simp add: sort_key_map last_parts_make_child)
qed

lemma latest_output_steps:
  assumes "node_at fsys (Path (os_path_join t ''azureml'')) = Dir names" and "names \<noteq> []"
  shows "latest_output fsys (Some t) =
           (case py_sorted (os_path_getmtime fsys)
                   (map (make_child (Path (os_path_join t ''azureml''))) names) of
              Inl e \<Rightarrow> Inl e
            | Inr latest \<Rightarrow>
                (case index_last latest of
                   Inl e \<Rightarrow> Inl e
                 | Inr p \<Rightarrow> Inr (os_path_join (path_str p) ''forecasting_output'')))"
proof -
  obtain n ns where names: "names = n # ns" using assms(2) by (cases names) auto
  have listed: "os_listdir fsys (os_path_join t ''azureml'') = Inr names"
    using assms(1) os_path_join_azureml_nonempty [of t] by (simp add: os_listdir_def)
  have first: "index_first names = Inr n"
    by (simp add: index_first_def names)
  have entries: "iterdir fsys (Path (os_path_join t ''azureml'')) =
      Inr (map (make_child (Path (os_path_join t ''azureml''))) names)"
    using assms(1) by (simp add: iterdir_def)
  show ?thesis
    by (simp only: latest_output_def join_target_def option.case sum.case listed first entries)
qed

lemma latest_output_Dir:
  assumes "node_at fsys (Path (os_path_join t ''azureml'')) = Dir names" and "names \<noteq> []"
    and "\<forall>n \<in> set names.
           os_path_getmtime fsys (make_child (Path (os_path_join t ''azureml'')) n) = Inr (mtime n)"
  shows "latest_output fsys (Some t) =
           Inr (os_path_join
                  (path_str (make_child (Path (os_path_join t ''azureml''))
                     (last (sort_key mtime names))))
                  ''forecasting_output'')"
proof -
  have ne: "sort_key mtime names \<noteq> []" using assms(2) by (simp add: sort_key_Nil_iff)
  then have "index_last (map (make_child (Path (os_path_join t ''azureml''))) (sort_key mtime names))
      = Inr (make_child (Path (os_path_join t ''azureml'')) (last (sort_key mtime names)))"
    by (simp add: index_last_def last_map)
  then show ?thesis
    by (simp only: latest_output_steps [OF assms(1,2)] sorted_entries [OF assms(3)] sum.case)
qed

lemma latest_output_Missing:
  "node_at fsys (Path (os_path_join t ''azureml'')) = Missing \<Longrightarrow>
   latest_output fsys (Some t) = Inl FileNotFoundError"
  by (simp add: latest_output_def join_target_def os_listdir_def)

lemma latest_output_File:
  "node_at fsys (Path (os_path_join t ''azureml'')) = File c \<Longrightarrow>
   latest_output fsys (Some t) = Inl NotADirectoryError"
  using os_path_join_azureml_nonempty [of t]
  by (simp add: latest_output_def join_target_def os_listdir_def)

lemma latest_output_empty:
  "node_at fsys (Path (os_path_join t ''azureml'')) = Dir [] \<Longrightarrow>
   latest_output fsys (Some t) = Inl IndexError"
  using os_path_join_azureml_nonempty [of t]
  by (simp add: latest_output_def join_target_def os_listdir_def index_first_def)

lemma latest_output_None: "latest_output fsys None = Inl TypeError"
  by (simp add: latest_output_def join_target_def)

lemma latest_output_unreadable:
  assumes "node_at fsys (Path (os_path_join t ''azureml'')) = Dir names" and "names \<noteq> []"
    and "latest_output fsys (Some t) = Inl e"
  shows "\<exists>n \<in> set names.
           os_path_getmtime fsys (make_child (Path (os_path_join t ''azureml'')) n) = Inl e"
proof (cases "py_sorted (os_path_getmtime fsys)
                (map (make_child (Path (os_path_join t ''azureml''))) names)")
  case (Inl e')
  with assms(3) have "e' = e" by (simp add: latest_output_steps [OF assms(1,2)])
  with Inl have "py_sorted (os_path_getmtime fsys)
      (map (make_child (Path (os_path_join t ''azureml''))) names) = Inl e"
    by simp
  from py_sorted_Inl_D [OF this] show ?thesis by auto
next
  case (Inr latest)
  then have "latest \<noteq> []"
    using assms(2) by (auto dest!: py_sorted_Inr_eq simp: sort_key_Nil_iff)
  with Inr assms(3) show ?thesis
    by (simp add: latest_output_steps [OF assms(1,2)] index_last_def)
qed

lemma latest_output_Inr_full:
  assumes "latest_output fsys target_dir = Inr p"
  shows "\<exists>t names mtime. target_dir = Some t \<and>
           node_at fsys (Path (os_path_join t ''azureml'')) = Dir names \<and> names \<noteq> [] \<and>
           (\<forall>n \<in> set names.
              os_path_getmtime fsys (make_child (Path (os_path_join t ''azureml'')) n)
                = Inr (mtime n)) \<and>
           p = os_path_join
                 (path_str (make_child (Path (os_path_join t ''azureml''))
                    (last (sort_key mtime names))))
                 ''forecasting_output''"
proof (cases target_dir)
  case None
  with assms show ?thesis by (simp add: latest_output_None)
next
  case (Some t)
  let ?d = "Path (os_path_join t ''azureml'')"
  show ?thesis
  proof (cases "node_at fsys ?d")
    case Missing
    with assms Some show ?thesis by (simp add: latest_output_Missing)
  next
    case (File c)
    with assms Some show ?thesis by (simp add: latest_output_File)
  next
    case (Dir names)
    show ?thesis
    proof (cases "names = []")
      case True
      with assms Some Dir show ?thesis by (simp add: latest_output_empty)
    next
      case False
      let ?mtime = "\<lambda>n. projr (os_path_getmtime fsys (make_child ?d n))"
      obtain latest where
        "py_sorted (os_path_getmtime fsys) (map (make_child ?d) names) = Inr latest"
        using assms Some
        by (cases "py_sorted (os_path_getmtime fsys) (map (make_child ?d) names)")
           (simp_all add: latest_output_steps [OF Dir False])
      from py_sorted_Inr_D [OF this]
      have stat: "\<forall>n \<in> set names. os_path_getmtime fsys (make_child ?d n) = Inr (?mtime n)"
        by simp
      from latest_output_Dir [OF Dir False stat] assms Some Dir False stat
      show ?thesis by auto
    qed
  qed
qed

lemma latest_output_Inr:
  assumes "latest_output fsys target_dir = Inr p"
  shows "\<exists>t n ns. target_dir = Some t \<and>
           node_at fsys (Path (os_path_join t ''azureml'')) = Dir (n # ns)"
proof -
  from latest_output_Inr_full [OF assms] obtain t names where
    "target_dir = Some t" "node_at fsys (Path (os_path_join t ''azureml'')) = Dir names"
    "names \<noteq> []"
    by blast
  then show ?thesis by (cases names) auto
qed

subsection \<open>The calls of \<^verbatim>\<open>download_predictions\<close>\<close>

lemma download_predictions_no_step:
  "find_step_run run ''many-models-forecasting'' = Inr [] \<Longrightarrow>
   download_predictions run target_dir w =
     (Inl IndexError, w\<lparr>requests := requests w @ [Find_step_run ''many-models-forecasting'']\<rparr>)"
  by (simp add: download_predictions_def bind_def call_def lift_def index_first_def)

lemma download_predictions_after_download:
  assumes "find_step_run run ''many-models-forecasting'' = Inr (stitch_run # others)"
    and "get_output_data stitch_run ''forecasting_output'' = Inr port_data"
    and "download port_data target_dir True True (fs w) = (None, fsys)"
  shows "download_predictions run target_dir w =
           (latest_output fsys target_dir,
            w\<lparr>fs := fsys,
              stdout := stdout w @ [port_data_str port_data],
              requests := requests w @ [Find_step_run ''many-models-forecasting'',
                                        Get_output_data ''forecasting_output'',
                                        Download target_dir True True]\<rparr>)"
  using assms
  by (simp add: download_predictions_def bind_def call_def lift_def index_first_def print_def
      call_download_def)

lemma download_predictions_cases:
  "(\<exists>e. find_step_run run ''many-models-forecasting'' = Inl e \<and>
        fst (download_predictions run target_dir w) = Inl e) \<or>
   (find_step_run run ''many-models-forecasting'' = Inr [] \<and>
        fst (download_predictions run target_dir w) = Inl IndexError) \<or>
   (\<exists>s ss. find_step_run run ''many-models-forecasting'' = Inr (s # ss) \<and>
      ((\<exists>e. get_output_data s ''forecasting_output'' = Inl e \<and>
            fst (download_predictions run target_dir w) = Inl e) \<or>
       (\<exists>pd fsys. get_output_data s ''forecasting_output'' = Inr pd \<and>
          ((\<exists>e. download pd target_dir True True (fs w) = (Some e, fsys) \<and>
                fst (download_predictions run target_dir w) = Inl e) \<or>
           (download pd target_dir True True (fs w) = (None, fsys) \<and>
                fst (download_predictions run target_dir w) = latest_output fsys target_dir)))))"
proof (cases "find_step_run run ''many-models-forecasting''")
  case (Inl e)
  then show ?thesis by (simp add: download_predictions_def bind_def call_def)
next
  case (Inr step_runs)
  show ?thesis
  proof (cases step_runs)
    case Nil
    with Inr show ?thesis by (simp add: download_predictions_no_step)
  next
    case (Cons s ss)
    show ?thesis
    proof (cases "get_output_data s ''forecasting_output''")
      case (Inl e)
      with Inr Cons show ?thesis
        by (simp add: download_predictions_def bind_def call_def lift_def index_first_def)
    next
      case pd: (Inr pd)
      obtain r fsys where d: "download pd target_dir True True (fs w) = (r, fsys)"
        by (cases "download pd target_dir True True (fs w)") auto
      show ?thesis
      proof (cases r)
        case None
        with Inr Cons pd d show ?thesis
          by (simp add: download_predictions_after_download)
      next
        case (Some e)
        with Inr Cons pd d show ?thesis
          by (simp add: download_predictions_def bind_def call_def lift_def index_first_def
              print_def call_download_def)
      qed
    qed
  qed
qed


subsection \<open>Evaluation on the concrete filesystems\<close>

lemmas path_defs =
  os_path_join_def Path_def splitroot_def path_str_def make_child_def

lemma Path_output_azureml:
  "Path (os_path_join ''output'' ''azureml'') = PurePath [] [''output'', ''azureml'']"
  by (simp add: path_defs)

lemma example_run_steps:
  "find_step_run example_run ''many-models-forecasting'' = Inr (example_step_run # [])"
  by (simp add: example_run_def)

lemma example_step_output:
  "get_output_data example_step_run ''forecasting_output'' = Inr example_port_data"
  by (simp add: example_step_run_def)

lemma example_download:
  "download example_port_data td True True (fs (example_world nd mt)) = (None, example_fs nd mt)"
  by (simp add: example_port_data_def example_world_def)

lemma example_node:
  "node_at (example_fs nd mt) (Path (os_path_join ''output'' ''azureml'')) = nd"
  by (simp add: Path_output_azureml example_fs_def)

lemma example_stat:
  "\<forall>n \<in> set names.
     os_path_getmtime (example_fs (Dir names) mt)
       (make_child (Path (os_path_join ''output'' ''azureml'')) n) =
     Inr (mt (PurePath [] [''output'', ''azureml'', n]))"
  by (simp add: Path_output_azureml example_fs_def os_path_getmtime_def make_child_def
      listed_def)

lemma example_run_result:
  "fst (download_predictions example_run td (example_world nd mt)) =
   latest_output (example_fs nd mt) td"
  by (simp add: download_predictions_after_download
      [OF example_run_steps example_step_output example_download])

lemma example_latest:
  assumes "names \<noteq> []"
  shows "latest_output (example_fs (Dir names) mt) (Some ''output'') =
     Inr (os_path_join
            (path_str (make_child (Path (os_path_join ''output'' ''azureml''))
               (last (sort_key (\<lambda>n. mt (PurePath [] [''output'', ''azureml'', n])) names))))
            ''forecasting_output'')"
  by (rule latest_output_Dir [OF example_node assms example_stat])

lemma latest_a_b_a_newer:
  "latest_output (example_fs (Dir [''a'', ''b'']) mtime_a_newer) (Some ''output'') =
   Inr ''output/azureml/a/forecasting_output''"
  by (simp add: example_latest) (simp add: path_defs mtime_a_newer_def)




lemma example_empty_run:
  "download_predictions empty_run td w =
     (Inl IndexError, w\<lparr>requests := requests w @ [Find_step_run ''many-models-forecasting'']\<rparr>)"
  by (simp add: download_predictions_no_step empty_run_def)

subsection \<open>What \<^verbatim>\<open>download_predictions\<close> returns\<close>




subsection \<open>When \<^verbatim>\<open>download_predictions\<close> fails\<close>

text \<open>
  Claim C8. \<open>download_predictions\<close> is partial. It raises IndexError when the run has no
  step named \<open>many-models-forecasting\<close>; after a download it raises FileNotFoundError when
  \<open>target_dir/azureml\<close> does not exist and IndexError when that directory has no entries;
  and whenever it returns a path, a matching step run exists and \<open>target_dir/azureml\<close> is
  a directory with at least one entry.
\<close>

theorem download_predictions_partial:
  "(find_step_run run ''many-models-forecasting'' = Inr [] \<longrightarrow>
      fst (download_predictions run target_dir w) = Inl IndexError)
   \<and> (find_step_run run ''many-models-forecasting'' = Inr (stitch_run # others) \<and>
       get_output_data stitch_run ''forecasting_output'' = Inr port_data \<and>
       download port_data (Some t) True True (fs w) = (None, fsys) \<longrightarrow>
         (node_at fsys (Path (os_path_join t ''azureml'')) = Missing \<longrightarrow>
            fst (download_predictions run (Some t) w) = Inl FileNotFoundError) \<and>
         (node_at fsys (Path (os_path_join t ''azureml'')) = Dir [] \<longrightarrow>
            fst (download_predictions run (Some t) w) = Inl IndexError))
   \<and> (fst (download_predictions run target_dir w) = Inr p \<longrightarrow>
         (\<exists>s ss pd fsys' t' n ns.
            find_step_run run ''many-models-forecasting'' = Inr (s # ss) \<and>
            get_output_data s ''forecasting_output'' = Inr pd \<and>
            download pd target_dir True True (fs w) = (None, fsys') \<and>
            target_dir = Some t' \<and>
            node_at fsys' (Path (os_path_join t' ''azureml'')) = Dir (n # ns)))"
proof (intro conjI impI)
  assume "find_step_run run ''many-models-forecasting'' = Inr []"
  then show "fst (download_predictions run target_dir w) = Inl IndexError"
    by (simp add: download_predictions_no_step)
next
  assume a: "find_step_run run ''many-models-forecasting'' = Inr (stitch_run # others) \<and>
       get_output_data stitch_run ''forecasting_output'' = Inr port_data \<and>
       download port_data (Some t) True True (fs w) = (None, fsys)"
    and m: "node_at fsys (Path (os_path_join t ''azureml'')) = Missing"
  from a have "fst (download_predictions run (Some t) w) = latest_output fsys (Some t)"
    by (simp add: download_predictions_after_download)
  with m show "fst (download_predictions run (Some t) w) = Inl FileNotFoundError"
    by (simp add: latest_output_Missing)
next
  assume a: "find_step_run run ''many-models-forecasting'' = Inr (stitch_run # others) \<and>
       get_output_data stitch_run ''forecasting_output'' = Inr port_data \<and>
       download port_data (Some t) True True (fs w) = (None, fsys)"
    and m: "node_at fsys (Path (os_path_join t ''azureml'')) = Dir []"
  from a have "fst (download_predictions run (Some t) w) = latest_output fsys (Some t)"
    by (simp add: download_predictions_after_download)
  with m show "fst (download_predictions run (Some t) w) = Inl IndexError"
    by (simp add: latest_output_empty)
next
  assume r: "fst (download_predictions run target_dir w) = Inr p"
  from download_predictions_cases [of run target_dir w] r
  obtain s ss pd fsys' where
    s: "find_step_run run ''many-models-forecasting'' = Inr (s # ss)"
    and pd: "get_output_data s ''forecasting_output'' = Inr pd"
    and d: "download pd target_dir True True (fs w) = (None, fsys')"
    and l: "fst (download_predictions run target_dir w) = latest_output fsys' target_dir"
    by auto
  from l r have "latest_output fsys' target_dir = Inr p" by simp
  from latest_output_Inr [OF this] obtain t' n ns where
    "target_dir = Some t'" "node_at fsys' (Path (os_path_join t' ''azureml'')) = Dir (n # ns)"
    by blast
  with s pd d show "\<exists>s ss pd fsys' t' n ns.
            find_step_run run ''many-models-forecasting'' = Inr (s # ss) \<and>
            get_output_data s ''forecasting_output'' = Inr pd \<and>
            download pd target_dir True True (fs w) = (None, fsys') \<and>
            target_dir = Some t' \<and>
            node_at fsys' (Path (os_path_join t' ''azureml'')) = Dir (n # ns)"
    by blast
qed

theorem download_predictions_partial_witness:
  "fst (download_predictions empty_run (Some ''output'')
          (example_world (Dir [''a'', ''b'']) mtime_a_newer)) = Inl IndexError
   \<and> fst (download_predictions example_run (Some ''output'')
          (example_world Missing mtime_a_newer)) = Inl FileNotFoundError
   \<and> fst (download_predictions example_run (Some ''output'')
          (example_world (Dir []) mtime_a_newer)) = Inl IndexError
   \<and> fst (download_predictions example_run (Some ''output'')
          (example_world (Dir [''a'', ''b'']) mtime_a_newer)) =
        Inr ''output/azureml/a/forecasting_output''
   \<and> (\<exists>s ss pd fsys' n ns.
         find_step_run example_run ''many-models-forecasting'' = Inr (s # ss) \<and>
         get_output_data s ''forecasting_output'' = Inr pd \<and>
         download pd (Some ''output'') True True
           (fs (example_world (Dir [''a'', ''b'']) mtime_a_newer)) = (None, fsys') \<and>
         node_at fsys' (Path (os_path_join ''output'' ''azureml'')) = Dir (n # ns))"
proof -
  have no_step: "find_step_run empty_run ''many-models-forecasting'' = Inr []"
    by (simp add: empty_run_def)
  have ok: "fst (download_predictions example_run (Some ''output'')
          (example_world (Dir [''a'', ''b'']) mtime_a_newer)) =
        Inr ''output/azureml/a/forecasting_output''"
    by (simp add: example_run_result latest_a_b_a_newer)
  have c1: "fst (download_predictions empty_run (Some ''output'')
          (example_world (Dir [''a'', ''b'']) mtime_a_newer)) = Inl IndexError"
    using download_predictions_partial
      [of empty_run "Some ''output''" "example_world (Dir [''a'', ''b'']) mtime_a_newer"]
      no_step by blast
  have c2: "fst (download_predictions example_run (Some ''output'')
          (example_world Missing mtime_a_newer)) = Inl FileNotFoundError"
    using download_predictions_partial
      [of example_run "Some ''output''" "example_world Missing mtime_a_newer"
          example_step_run "[]" example_port_data "''output''" "example_fs Missing mtime_a_newer"]
      example_run_steps example_step_output
      example_download [of "Some ''output''" Missing mtime_a_newer]
      example_node [of Missing mtime_a_newer]
    by blast
  have c3: "fst (download_predictions example_run (Some ''output'')
          (example_world (Dir []) mtime_a_newer)) = Inl IndexError"
    using download_predictions_partial
      [of example_run "Some ''output''" "example_world (Dir []) mtime_a_newer"
          example_step_run "[]" example_port_data "''output''" "example_fs (Dir []) mtime_a_newer"]
      example_run_steps example_step_output
      example_download [of "Some ''output''" "Dir []" mtime_a_newer]
      example_node [of "Dir []" mtime_a_newer]
    by blast
  have c4: "\<exists>s ss pd fsys' n ns.
         find_step_run example_run ''many-models-forecasting'' = Inr (s # ss) \<and>
         get_output_data s ''forecasting_output'' = Inr pd \<and>
         download pd (Some ''output'') True True
           (fs (example_world (Dir [''a'', ''b'']) mtime_a_newer)) = (None, fsys') \<and>
         node_at fsys' (Path (os_path_join ''output'' ''azureml'')) = Dir (n # ns)"
    using download_predictions_partial
      [of example_run "Some ''output''" "example_world (Dir [''a'', ''b'']) mtime_a_newer"
          _ _ _ _ _ "''output/azureml/a/forecasting_output''"] ok
    by blast
  from c1 c2 c3 ok c4 show ?thesis by blast
qed

subsection \<open>Enumeration order of the downloaded directory\<close>




subsection \<open>Local selection in \<^verbatim>\<open>download_predictions\<close>\<close>




subsection \<open>Sequencing of calls\<close>

lemma bind_call_Inr:
  "response = Inr x \<Longrightarrow> bind (call r response) k w = k x (w\<lparr>requests := requests w @ [r]\<rparr>)"
  by (simp add: bind_def call_def)

lemma bind_call_Inl:
  "response = Inl e \<Longrightarrow>
   bind (call r response) k w = (Inl e, w\<lparr>requests := requests w @ [r]\<rparr>)"
  by (simp add: bind_def call_def)

lemma bind_print: "bind (print ls) k w = k () (w\<lparr>stdout := stdout w @ ls\<rparr>)"
  by (simp add: bind_def print_def)

lemma run_pipeline_trace:
  assumes "from_config sdk = Inr ws"
    and "get_default_datastore sdk ws = Inr dstore"
    and "create_experiment sdk ws ''forecasting_pipeline'' = Inr ()"
    and "get_by_name sdk ws ''oj_data_small'' = Inr small_dataset"
    and "get_compute sdk ws ''cpucluster'' = Inr compute"
    and "register_azure_blob_container sdk ws ''predictions'' ''predictions''
           (account_name dstore) (account_key dstore) True = Inr output_dstore"
  shows "run_pipeline sdk w =
     (submit sdk \<lparr>exp_workspace = ws, exp_name = ''forecasting_pipeline''\<rparr>
             (pipeline_var ws dstore small_dataset compute output_dstore) tags_var,
      w\<lparr>stdout := stdout w @ [''Workspace Name: '' @ ws_name ws,
                  ''Azure Region: '' @ location ws,
                  ''Subscription Id: '' @ subscription_id ws,
                  ''Resource Group: '' @ resource_group ws],
        requests := requests w @
          [Workspace_from_config, Get_default_datastore, Experiment_create ''forecasting_pipeline'',
           Dataset_get_by_name ''oj_data_small'', AmlCompute_get ''cpucluster'',
           Register_azure_blob_container ws ''predictions'' ''predictions''
                   (account_name dstore) (account_key dstore) True,
           Experiment_submit \<lparr>exp_workspace = ws, exp_name = ''forecasting_pipeline''\<rparr>
             (pipeline_var ws dstore small_dataset compute output_dstore) tags_var]\<rparr>)"
  unfolding run_pipeline_def
  by (simp add: bind_call_Inr assms bind_print) (simp add: call_def)

lemma run_pipeline_register_refused:
  assumes "from_config sdk = Inr ws"
    and "get_default_datastore sdk ws = Inr dstore"
    and "create_experiment sdk ws ''forecasting_pipeline'' = Inr ()"
    and "get_by_name sdk ws ''oj_data_small'' = Inr small_dataset"
    and "get_compute sdk ws ''cpucluster'' = Inr compute"
    and "register_azure_blob_container sdk ws ''predictions'' ''predictions''
           (account_name dstore) (account_key dstore) True = Inl e"
  shows "run_pipeline sdk w =
     (Inl e,
      w\<lparr>stdout := stdout w @ [''Workspace Name: '' @ ws_name ws,
                  ''Azure Region: '' @ location ws,
                  ''Subscription Id: '' @ subscription_id ws,
                  ''Resource Group: '' @ resource_group ws],
        requests := requests w @
          [Workspace_from_config, Get_default_datastore, Experiment_create ''forecasting_pipeline'',
           Dataset_get_by_name ''oj_data_small'', AmlCompute_get ''cpucluster'',
           Register_azure_blob_container ws ''predictions'' ''predictions''
                   (account_name dstore) (account_key dstore) True]\<rparr>)"
  unfolding run_pipeline_def
  by (simp add: bind_call_Inr bind_call_Inl assms bind_print)


lemma run_pipeline_requests_distinct:
  "distinct (drop (length (requests w)) (requests (snd (run_pipeline sdk w))))"
  by (simp add: run_pipeline_def bind_def call_def print_def split: sum.splits)

lemma run_pipeline_error_origin:
  assumes "fst (run_pipeline sdk w) = Inl e"
  shows "from_config sdk = Inl e
       \<or> (\<exists>ws. from_config sdk = Inr ws \<and>
            (get_default_datastore sdk ws = Inl e
           \<or> create_experiment sdk ws ''forecasting_pipeline'' = Inl e
           \<or> get_by_name sdk ws ''oj_data_small'' = Inl e
           \<or> get_compute sdk ws ''cpucluster'' = Inl e
           \<or> (\<exists>dstore. get_default_datastore sdk ws = Inr dstore \<and>
                (register_azure_blob_container sdk ws ''predictions'' ''predictions''
                   (account_name dstore) (account_key dstore) True = Inl e
               \<or> (\<exists>small_dataset compute output_dstore.
                     submit sdk \<lparr>exp_workspace = ws, exp_name = ''forecasting_pipeline''\<rparr>
                       (pipeline_var ws dstore small_dataset compute output_dstore) tags_var
                     = Inl e)))))"
  using assms
  by (auto simp add: run_pipeline_def bind_def call_def print_def split: sum.splits)

subsection \<open>The submitted pipeline\<close>



subsection \<open>Registration of the output datastore\<close>

lemma service_responses:
  "from_config (service containers) = Inr example_ws"
  "get_default_datastore (service containers) example_ws = Inr example_dstore"
  "create_experiment (service containers) example_ws ''forecasting_pipeline'' = Inr ()"
  "get_by_name (service containers) example_ws ''oj_data_small'' =
     Inr \<lparr>dataset_name = ''oj_data_small''\<rparr>"
  "get_compute (service containers) example_ws ''cpucluster'' =
     Inr \<lparr>compute_name = ''cpucluster''\<rparr>"
  by (simp_all add: service_def)

text \<open>
  Claim C10. When the calls before it succeed, the notebook calls
  \<open>register_azure_blob_container\<close> once, with the workspace, the datastore name and
  the container name \<open>predictions\<close>, the account name and the account key of the
  workspace's default datastore, and \<open>create_if_not_exists = True\<close>: what the notebook
  does next is decided by the answer to the call with exactly these arguments. An
  exception of the call ends the notebook; otherwise the datastore it returns is the one
  the copy step of the submitted pipeline refers to. Nothing is asked about the container
  beforehand: the five requests before the registration and the registration itself are
  the same whatever the service holds and answers.
\<close>

theorem predictions_datastore_registration:
  assumes "from_config sdk = Inr ws"
    and "get_default_datastore sdk ws = Inr dstore"
    and "create_experiment sdk ws ''forecasting_pipeline'' = Inr ()"
    and "get_by_name sdk ws ''oj_data_small'' = Inr small_dataset"
    and "get_compute sdk ws ''cpucluster'' = Inr compute"
  shows "run_pipeline sdk w =
     (case register_azure_blob_container sdk ws ''predictions'' ''predictions''
             (account_name dstore) (account_key dstore) True of
        Inl e \<Rightarrow>
          (Inl e,
           w\<lparr>stdout := stdout w @
                 [''Workspace Name: '' @ ws_name ws, ''Azure Region: '' @ location ws,
                  ''Subscription Id: '' @ subscription_id ws,
                  ''Resource Group: '' @ resource_group ws],
             requests := requests w @
                 [Workspace_from_config, Get_default_datastore,
                  Experiment_create ''forecasting_pipeline'',
                  Dataset_get_by_name ''oj_data_small'', AmlCompute_get ''cpucluster'',
                  Register_azure_blob_container ws ''predictions'' ''predictions''
                    (account_name dstore) (account_key dstore) True]\<rparr>)
      | Inr output_dstore \<Rightarrow>
          (submit sdk \<lparr>exp_workspace = ws, exp_name = ''forecasting_pipeline''\<rparr>
             (pipeline_var ws dstore small_dataset compute output_dstore) tags_var,
           w\<lparr>stdout := stdout w @
                 [''Workspace Name: '' @ ws_name ws, ''Azure Region: '' @ location ws,
                  ''Subscription Id: '' @ subscription_id ws,
                  ''Resource Group: '' @ resource_group ws],
             requests := requests w @
                 [Workspace_from_config, Get_default_datastore,
                  Experiment_create ''forecasting_pipeline'',
                  Dataset_get_by_name ''oj_data_small'', AmlCompute_get ''cpucluster'',
                  Register_azure_blob_container ws ''predictions'' ''predictions''
                    (account_name dstore) (account_key dstore) True,
                  Experiment_submit \<lparr>exp_workspace = ws, exp_name = ''forecasting_pipeline''\<rparr>
                    (pipeline_var ws dstore small_dataset compute output_dstore) tags_var]\<rparr>))
     \<and> (\<forall>output_dstore. \<exists>first step.
           pl_steps (pipeline_var ws dstore small_dataset compute output_dstore) =
             [first, PythonScriptStep step] \<and>
           pss_inputs step =
             [ArgRef \<lparr>dref_datastore = output_dstore\<rparr>, ArgData (output_dir_var dstore)])"
proof (cases "register_azure_blob_container sdk ws ''predictions'' ''predictions''
           (account_name dstore) (account_key dstore) True")
  case (Inl e)
  show ?thesis
    by (simp add: run_pipeline_register_refused [OF assms Inl] Inl pipeline_var_def
        upload_predictions_step_var_def)
next
  case (Inr output_dstore)
  show ?thesis
    by (simp add: run_pipeline_trace [OF assms Inr] Inr pipeline_var_def
        upload_predictions_step_var_def)
qed

theorem predictions_datastore_registration_witness:
  "run_pipeline (service []) predictions_world =
     (Inr example_run,
      \<lparr>fs = predictions_fs,
       stdout = [''Workspace Name: ws'', ''Azure Region: westus'',
                 ''Subscription Id: sub'', ''Resource Group: rg''],
       requests =
         [Workspace_from_config, Get_default_datastore,
          Experiment_create ''forecasting_pipeline'',
          Dataset_get_by_name ''oj_data_small'', AmlCompute_get ''cpucluster'',
          Register_azure_blob_container example_ws ''predictions'' ''predictions''
            ''acct'' ''key'' True,
          Experiment_submit \<lparr>exp_workspace = example_ws, exp_name = ''forecasting_pipeline''\<rparr>
            (pipeline_var example_ws example_dstore \<lparr>dataset_name = ''oj_data_small''\<rparr>
               \<lparr>compute_name = ''cpucluster''\<rparr>
               \<lparr>datastore_name = ''predictions'', container_name = ''predictions'',
                account_name = ''acct'', account_key = ''key''\<rparr>)
            tags_var],
       plots = []\<rparr>)
   \<and> run_pipeline (service [''predictions'']) predictions_world =
       run_pipeline (service []) predictions_world
   \<and> register_azure_blob_container (service []) example_ws ''predictions'' ''predictions''
       ''acct'' ''key'' False = Inl (PlatformError ''ContainerNotFound'')"
proof -
  have acct: "account_name example_dstore = ''acct''" "account_key example_dstore = ''key''"
    by (simp_all add: example_dstore_def)
  have printed:
    "''Workspace Name: '' @ ws_name example_ws = ''Workspace Name: ws''"
    "''Azure Region: '' @ location example_ws = ''Azure Region: westus''"
    "''Subscription Id: '' @ subscription_id example_ws = ''Subscription Id: sub''"
    "''Resource Group: '' @ resource_group example_ws = ''Resource Group: rg''"
    by (simp_all add: example_ws_def)
  have answer: "register_azure_blob_container (service containers) example_ws ''predictions''
      ''predictions'' ''acct'' ''key'' True =
      Inr \<lparr>datastore_name = ''predictions'', container_name = ''predictions'',
           account_name = ''acct'', account_key = ''key''\<rparr>" for containers
    by (simp add: service_def)
  have submitted: "submit (service containers) e p t = Inr example_run" for containers e p t
    by (simp add: service_def)
  have refused: "register_azure_blob_container (service []) example_ws ''predictions''
      ''predictions'' ''acct'' ''key'' False = Inl (PlatformError ''ContainerNotFound'')"
    by (simp add: service_def)
  have run: "run_pipeline (service containers) predictions_world =
     (Inr example_run,
      \<lparr>fs = predictions_fs,
       stdout = [''Workspace Name: ws'', ''Azure Region: westus'',
                 ''Subscription Id: sub'', ''Resource Group: rg''],
       requests =
         [Workspace_from_config, Get_default_datastore,
          Experiment_create ''forecasting_pipeline'',
          Dataset_get_by_name ''oj_data_small'', AmlCompute_get ''cpucluster'',
          Register_azure_blob_container example_ws ''predictions'' ''predictions''
            ''acct'' ''key'' True,
          Experiment_submit \<lparr>exp_workspace = example_ws, exp_name = ''forecasting_pipeline''\<rparr>
            (pipeline_var example_ws example_dstore \<lparr>dataset_name = ''oj_data_small''\<rparr>
               \<lparr>compute_name = ''cpucluster''\<rparr>
               \<lparr>datastore_name = ''predictions'', container_name = ''predictions'',
                account_name = ''acct'', account_key = ''key''\<rparr>)
            tags_var],
       plots = []\<rparr>)" for containers
    using predictions_datastore_registration
      [OF service_responses [of containers], of predictions_world]
    unfolding acct printed answer submitted
    by (simp add: predictions_world_def)
  from run [of "[]"] run [of "[''predictions'']"] refused show ?thesis by simp
qed

subsection \<open>The dataframe of predictions\<close>

text \<open>
  Claim C2. The notebook reads \<open>file_path/parallel_run_step.txt\<close> with
  \<^verbatim>\<open>pd.read_csv\<close>, the separator \<open>' '\<close> and \<open>header=None\<close>. A file is well formed when
  pandas reads it as a frame of four columns and reads the first column as dates. For
  every such file the cell returns the frame with exactly the columns WeekStarting,
  Predictions, Store, Brand, in this order: the first column holds the dates, the other
  three are as read, and the rows are those read. A frame of another width is refused with
  ValueError by the assignment of the four names.
\<close>

theorem load_predictions_columns:
  "(pd_read_csv libs (fs w) (file_path @ ''/parallel_run_step.txt'') '' '' None = Inr df0 \<and>
    length (series df0) \<noteq> 4 \<longrightarrow>
      load_predictions libs file_path w = (Inl ValueError, w))
   \<and> (pd_read_csv libs (fs w) (file_path @ ''/parallel_run_step.txt'') '' '' None = Inr df0 \<and>
      series df0 = [(l0, c0), (l1, c1), (l2, c2), (l3, c3)] \<and>
      pd_to_datetime libs c0 = Inr stamps \<and>
      (\<forall>s \<in> set stamps. timestamp_date libs s = Inr (day s)) \<and>
      length stamps = nrows df0 \<and>
      df_head libs
        \<lparr>nrows = nrows df0,
         series = [(StrLabel ''WeekStarting'', map day stamps), (StrLabel ''Predictions'', c1),
                   (StrLabel ''Store'', c2), (StrLabel ''Brand'', c3)]\<rparr> = Inr shown \<longrightarrow>
      load_predictions libs file_path w =
        (Inr \<lparr>nrows = nrows df0,
              series = [(StrLabel ''WeekStarting'', map day stamps),
                        (StrLabel ''Predictions'', c1),
                        (StrLabel ''Store'', c2), (StrLabel ''Brand'', c3)]\<rparr>, w) \<and>
      columns \<lparr>nrows = nrows df0,
               series = [(StrLabel ''WeekStarting'', map day stamps),
                         (StrLabel ''Predictions'', c1),
                         (StrLabel ''Store'', c2), (StrLabel ''Brand'', c3)]\<rparr> =
        [StrLabel ''WeekStarting'', StrLabel ''Predictions'', StrLabel ''Store'',
         StrLabel ''Brand''])"
proof (rule conjI; rule impI)
  assume "pd_read_csv libs (fs w) (file_path @ ''/parallel_run_step.txt'') '' '' None = Inr df0 \<and>
    length (series df0) \<noteq> 4"
  then show "load_predictions libs file_path w = (Inl ValueError, w)"
    by (simp add: load_predictions_def bind_def lift_def set_columns_def)
next
  let ?names = "[StrLabel ''WeekStarting'', StrLabel ''Predictions'',
                 StrLabel ''Store'', StrLabel ''Brand'']"
  let ?df1 = "\<lparr>nrows = nrows df0,
               series = [(StrLabel ''WeekStarting'', c0), (StrLabel ''Predictions'', c1),
                         (StrLabel ''Store'', c2), (StrLabel ''Brand'', c3)]\<rparr>"
  let ?df2 = "\<lparr>nrows = nrows df0,
               series = [(StrLabel ''WeekStarting'', map day stamps),
                         (StrLabel ''Predictions'', c1),
                         (StrLabel ''Store'', c2), (StrLabel ''Brand'', c3)]\<rparr>"
  assume a: "pd_read_csv libs (fs w) (file_path @ ''/parallel_run_step.txt'') '' '' None = Inr df0 \<and>
      series df0 = [(l0, c0), (l1, c1), (l2, c2), (l3, c3)] \<and>
      pd_to_datetime libs c0 = Inr stamps \<and>
      (\<forall>s \<in> set stamps. timestamp_date libs s = Inr (day s)) \<and>
      length stamps = nrows df0 \<and>
      df_head libs ?df2 = Inr shown"
  have named: "set_columns df0 ?names = Inr ?df1"
    using a by (simp add: set_columns_def)
  have column: "get_column ?df1 (StrLabel ''WeekStarting'') = Inr c0"
    by (simp add: get_column_def)
  have dates: "traverse (timestamp_date libs) stamps = Inr (map day stamps)"
    using a by (intro traverse_Inr) simp
  have assigned: "set_column ?df1 (StrLabel ''WeekStarting'') (map day stamps) = Inr ?df2"
    using a by (simp add: set_column_def)
  have read: "pd_read_csv libs (fs w) (file_path @ ''/parallel_run_step.txt'') '' '' None = Inr df0"
    and stamped: "pd_to_datetime libs c0 = Inr stamps"
    and head: "df_head libs ?df2 = Inr shown"
    using a by simp_all
  have "load_predictions libs file_path w = (Inr ?df2, w)"
    by (simp only: load_predictions_def bind_def lift_def return_def read named column stamped
        dates assigned head sum.case prod.case)
  then show "load_predictions libs file_path w = (Inr ?df2, w) \<and> columns ?df2 = ?names"
    by (simp add: columns_def)
qed

theorem load_predictions_columns_witness:
  "load_predictions example_libs ''output/azureml/a/forecasting_output'' predictions_world =
     (Inr \<lparr>nrows = 2,
           series =
             [(StrLabel ''WeekStarting'', [DateValue 1992 10 1, DateValue 1992 10 8]),
              (StrLabel ''Predictions'', [Number 10.5, Number 11.5]),
              (StrLabel ''Store'', [Text ''Store1001'', Text ''Store1001'']),
              (StrLabel ''Brand'', [Text ''tropicana'', Text ''tropicana''])]\<rparr>,
      predictions_world)
   \<and> load_predictions
       (example_libs\<lparr>pd_read_csv := (\<lambda>fsys path sep header. Inr \<lparr>nrows = 0, series = []\<rparr>)\<rparr>)
       ''output/azureml/a/forecasting_output'' predictions_world =
     (Inl ValueError, predictions_world)"
proof -
  let ?day = "\<lambda>s. case s of Timestamp y m d t \<Rightarrow> DateValue y m d | NaT \<Rightarrow> NaTValue"
  let ?stamps = "[Timestamp 1992 10 1 0, Timestamp 1992 10 8 0]"
  let ?result = "\<lparr>nrows = nrows example_frame,
           series =
             [(StrLabel ''WeekStarting'', map ?day ?stamps),
              (StrLabel ''Predictions'', [Number 10.5, Number 11.5]),
              (StrLabel ''Store'', [Text ''Store1001'', Text ''Store1001'']),
              (StrLabel ''Brand'', [Text ''tropicana'', Text ''tropicana''])]\<rparr>"
  have read: "pd_read_csv example_libs (fs predictions_world)
      (''output/azureml/a/forecasting_output'' @ ''/parallel_run_step.txt'') '' '' None =
      Inr example_frame"
    by (simp add: example_libs_def predictions_world_def predictions_fs_def Path_def
        splitroot_def)
  have hyps: "pd_read_csv example_libs (fs predictions_world)
      (''output/azureml/a/forecasting_output'' @ ''/parallel_run_step.txt'') '' '' None =
      Inr example_frame \<and>
      series example_frame =
        [(IntLabel 0, [Text ''1992-10-01'', Text ''1992-10-08'']),
         (IntLabel 1, [Number 10.5, Number 11.5]),
         (IntLabel 2, [Text ''Store1001'', Text ''Store1001'']),
         (IntLabel 3, [Text ''tropicana'', Text ''tropicana''])] \<and>
      pd_to_datetime example_libs [Text ''1992-10-01'', Text ''1992-10-08''] = Inr ?stamps \<and>
      (\<forall>s \<in> set ?stamps. timestamp_date example_libs s = Inr (?day s)) \<and>
      length ?stamps = nrows example_frame \<and>
      df_head example_libs ?result = Inr ?result"
    using read by (simp add: example_libs_def example_frame_def)
  have empty: "pd_read_csv
        (example_libs\<lparr>pd_read_csv := (\<lambda>fsys path sep header. Inr \<lparr>nrows = 0, series = []\<rparr>)\<rparr>)
        (fs predictions_world)
        (''output/azureml/a/forecasting_output'' @ ''/parallel_run_step.txt'') '' '' None =
      Inr \<lparr>nrows = 0, series = []\<rparr> \<and>
      length (series \<lparr>nrows = 0, series = []\<rparr>) \<noteq> 4"
    by simp
  from load_predictions_columns
    [of example_libs predictions_world "''output/azureml/a/forecasting_output''" example_frame
        "IntLabel 0" "[Text ''1992-10-01'', Text ''1992-10-08'']"
        "IntLabel 1" "[Number 10.5, Number 11.5]"
        "IntLabel 2" "[Text ''Store1001'', Text ''Store1001'']"
        "IntLabel 3" "[Text ''tropicana'', Text ''tropicana'']"
        ?stamps ?day ?result] hyps
  have ok: "load_predictions example_libs ''output/azureml/a/forecasting_output''
      predictions_world = (Inr ?result, predictions_world)"
    by blast
  from load_predictions_columns
    [of "example_libs\<lparr>pd_read_csv := (\<lambda>fsys path sep header. Inr \<lparr>nrows = 0, series = []\<rparr>)\<rparr>"
        predictions_world "''output/azureml/a/forecasting_output''"
        "\<lparr>nrows = 0, series = []\<rparr>"] empty
  have refused: "load_predictions
       (example_libs\<lparr>pd_read_csv := (\<lambda>fsys path sep header. Inr \<lparr>nrows = 0, series = []\<rparr>)\<rparr>)
       ''output/azureml/a/forecasting_output'' predictions_world =
     (Inl ValueError, predictions_world)"
    by blast
  have "?result = \<lparr>nrows = 2,
           series =
             [(StrLabel ''WeekStarting'', [DateValue 1992 10 1, DateValue 1992 10 8]),
              (StrLabel ''Predictions'', [Number 10.5, Number 11.5]),
              (StrLabel ''Store'', [Text ''Store1001'', Text ''Store1001'']),
              (StrLabel ''Brand'', [Text ''tropicana'', Text ''tropicana''])]\<rparr>"
    by (simp add: example_frame_def)
  with ok refused show ?thesis by simp
qed


end
